theory Spec2Isabelle
  imports Main "HOL-Library.Multiset"
begin

section \<open>Data model\<close>

text \<open>
  \<^verbatim>\<open>export type JobStatus = "Not Applied" | "Applied" | "Rejected" | "Selected";\<close>
  (components/jobs/JobCard.tsx). All four strings are truthy in JavaScript.
\<close>

datatype JobStatus = NotApplied | Applied | Rejected | Selected

text \<open>
  Modelled from the spec: the interface \<^verbatim>\<open>Job\<close> is declared in data/jobs.ts, which is
  not among the sources. The record has the fields that the specification lists and that
  the pages read. \<^verbatim>\<open>id\<close> is written \<open>id'\<close>. \<^verbatim>\<open>experience\<close> is a string: the
  dashboard compares it with \<^verbatim>\<open>===\<close> to the string of the experience filter.
  \<^verbatim>\<open>postedDaysAgo\<close> and the scores are JavaScript numbers that hold integers.
\<close>

record Job =
  id' :: string
  title :: string
  company :: string
  location :: string
  mode :: string
  experience :: string
  salaryRange :: string
  skills :: "string list"
  source :: string
  postedDaysAgo :: int
  applyUrl :: string

text \<open>
  The object \<^verbatim>\<open>{ ...job, matchScore: s }\<close> that both pages build. On the dashboard the
  score is \<^verbatim>\<open>number | undefined\<close> (\<open>int option\<close>), in the digest it is a
  \<^verbatim>\<open>number\<close> (\<^verbatim>\<open>interface DigestJob extends Job\<close>).
\<close>

record 's ScoredJob = Job +
  matchScore :: 's

definition withScore :: "Job \<Rightarrow> 's \<Rightarrow> 's ScoredJob" where
  "withScore job s =
     \<lparr>id' = id' job, title = title job, company = company job, location = location job,
      mode = mode job, experience = experience job, salaryRange = salaryRange job,
      skills = skills job, source = source job, postedDaysAgo = postedDaysAgo job,
      applyUrl = applyUrl job, matchScore = s\<rparr>"

text \<open>
  Modelled from the spec: the interface \<^verbatim>\<open>Preferences\<close> is declared in
  lib/matchScore.ts, which is not among the sources. Of its fields the pages read only
  \<^verbatim>\<open>minMatchScore\<close>; the other three are the ones the specification lists, with the
  skills written \<open>skills'\<close>.
\<close>

record Preferences =
  roleKeywords :: "string list"
  locations :: "string list"
  skills' :: "string list"
  minMatchScore :: int

text \<open>
  The state \<^verbatim>\<open>filters\<close> of the dashboard. A field that shares its name with a field
  of \<^verbatim>\<open>Job\<close> carries a prime. \<^verbatim>\<open>status: JobStatus | ""\<close> is \<open>None\<close> for the
  empty string.
\<close>

record Filters =
  keyword :: string
  location' :: string
  mode' :: string
  experience' :: string
  source' :: string
  status :: "JobStatus option"
  sort' :: string

text \<open>
  \<^verbatim>\<open>interface StatusHistoryEntry\<close> of lib/jobStatus.ts, with \<^verbatim>\<open>company\<close> written
  \<open>company'\<close> and \<^verbatim>\<open>status\<close> written \<open>status'\<close>. \<^verbatim>\<open>changedAt\<close> is the ISO
  string of the clock at the time of the change.
\<close>

record StatusHistoryEntry =
  jobId :: string
  jobTitle :: string
  company' :: string
  status' :: JobStatus
  changedAt :: string

text \<open>
  A reading of the clock, \<^verbatim>\<open>new Date()\<close>, by the four methods the digest page calls
  on it: the local year, month (from 0) and day of the month, and the ISO string.
\<close>

record Date =
  getFullYear :: nat
  getMonth :: nat
  getDate :: nat
  toISOString :: string

text \<open>\<^verbatim>\<open>interface DigestData\<close> of digest/page.tsx.\<close>

record DigestData =
  date :: string
  jobs :: "int ScoredJob list"
  generatedAt :: string

subsection \<open>The key-value store\<close>

text \<open>
  A value read with \<^verbatim>\<open>localStorage.getItem\<close> is a string. For the value that the
  program expects under a key, a string is either the text \<^verbatim>\<open>JSON.stringify\<close>
  produced for some value \<open>v\<close>, written \<open>Json v\<close>, or some other text \<open>s\<close> on which
  \<^verbatim>\<open>JSON.parse\<close> throws a SyntaxError, written \<open>Unparsable s\<close> (the empty string
  is such a text, and it is the only falsy string). \<^verbatim>\<open>JSON.parse\<close> returns
  \<open>None\<close> where it throws. A text that parses to a value of another shape than the
  expected one is not modelled: the code returns it as it is, on the word of its type
  annotation.
\<close>

datatype 'a item = Unparsable string | Json 'a

definition JSON_parse :: "'a item \<Rightarrow> 'a option" where
  "JSON_parse saved = (case saved of Unparsable s \<Rightarrow> None | Json v \<Rightarrow> Some v)"

definition JSON_stringify :: "'a \<Rightarrow> 'a item" where
  "JSON_stringify v = Json v"

text \<open>The truthiness test \<^verbatim>\<open>if (saved)\<close> on the result of \<^verbatim>\<open>getItem\<close>:
  \<^verbatim>\<open>null\<close> and the empty string are falsy.\<close>

definition truthy :: "'a item option \<Rightarrow> bool" where
  "truthy saved =
     (case saved of None \<Rightarrow> False | Some (Unparsable s) \<Rightarrow> s \<noteq> [] | Some (Json v) \<Rightarrow> True)"

text \<open>
  The entries of the store that the modelled code reads and writes: the status map under
  \<^verbatim>\<open>STATUS_KEY = "jobTrackerStatus"\<close>, the history under
  \<^verbatim>\<open>STATUS_HISTORY_KEY = "jobTrackerStatusHistory"\<close>, and the digests, one under
  each key that \<^verbatim>\<open>getTodayKey\<close> makes. \<open>None\<close> is a key that is not set. A
  \<^verbatim>\<open>Record<string, JobStatus>\<close> is a map from job ids to statuses; a job id is an
  ordinary key, not one of the property names that every JavaScript object inherits (such
  as \<^verbatim>\<open>__proto__\<close>).
  The functions of lib/jobStatus.ts first test \<^verbatim>\<open>typeof window === "undefined"\<close>:
  their environment is \<open>None\<close> where there is no window (rendering on the server) and
  \<open>Some ls\<close> in a browser whose store is \<open>ls\<close>.
\<close>

record localStorage =
  jobTrackerStatus :: "(string \<rightharpoonup> JobStatus) item option"
  jobTrackerStatusHistory :: "StatusHistoryEntry list item option"
  digestItems :: "string \<rightharpoonup> DigestData item"

type_synonym window = "localStorage option"

section \<open>Status tracker (lib/jobStatus.ts)\<close>

definition loadJobStatuses :: "window \<Rightarrow> (string \<rightharpoonup> JobStatus)" where
  "loadJobStatuses w =
     (case w of
        None \<Rightarrow> Map.empty
      | Some ls \<Rightarrow>
          (let saved = jobTrackerStatus ls in
           if truthy saved then
             (case JSON_parse (the saved) of
                Some v \<Rightarrow> v
              | None \<Rightarrow> Map.empty)
           else Map.empty))"

text \<open>\<^verbatim>\<open>return statuses[jobId] || "Not Applied";\<close> A stored status is truthy, so the
  default is taken exactly when the job id is not a key of the map.\<close>

definition getJobStatus :: "window \<Rightarrow> string \<Rightarrow> JobStatus" where
  "getJobStatus w jid =
     (let statuses = loadJobStatuses w in
      case statuses jid of None \<Rightarrow> NotApplied | Some s \<Rightarrow> s)"

definition loadStatusHistory :: "window \<Rightarrow> StatusHistoryEntry list" where
  "loadStatusHistory w =
     (case w of
        None \<Rightarrow> []
      | Some ls \<Rightarrow>
          (let saved = jobTrackerStatusHistory ls in
           if truthy saved then
             (case JSON_parse (the saved) of
                Some v \<Rightarrow> v
              | None \<Rightarrow> [])
           else []))"

text \<open>\<^verbatim>\<open>recordStatusHistory\<close>; \<open>now\<close> is \<^verbatim>\<open>new Date().toISOString()\<close>, and
  \<^verbatim>\<open>[newEntry, ...history].slice(0, 20)\<close> is \<open>take 20 (newEntry # history)\<close>.\<close>

definition recordStatusHistory ::
  "string \<Rightarrow> string \<Rightarrow> string \<Rightarrow> JobStatus \<Rightarrow> string \<Rightarrow> window \<Rightarrow> window" where
  "recordStatusHistory jid jtitle cname st now w =
     (case w of
        None \<Rightarrow> None
      | Some ls \<Rightarrow>
          (let history = loadStatusHistory w;
               newEntry = \<lparr>jobId = jid, jobTitle = jtitle, company' = cname, status' = st,
                           changedAt = now\<rparr>;
               updatedHistory = take 20 (newEntry # history)
           in Some (ls\<lparr>jobTrackerStatusHistory := Some (JSON_stringify updatedHistory)\<rparr>)))"

text \<open>\<^verbatim>\<open>saveJobStatus(jobId, status, jobTitle, company)\<close>, with the clock reading
  \<open>now\<close> that \<^verbatim>\<open>recordStatusHistory\<close> takes. \<^verbatim>\<open>statuses[jobId] === status\<close>
  holds exactly when the map has the job id with that very status.\<close>

definition saveJobStatus ::
  "string \<Rightarrow> JobStatus \<Rightarrow> string \<Rightarrow> string \<Rightarrow> string \<Rightarrow> window \<Rightarrow> window" where
  "saveJobStatus jid st jtitle cname now w =
     (case w of
        None \<Rightarrow> None
      | Some ls \<Rightarrow>
          (let statuses = loadJobStatuses w in
           if statuses jid = Some st then w
           else
             (let statuses2 = statuses(jid \<mapsto> st);
                  w2 = Some (ls\<lparr>jobTrackerStatus := Some (JSON_stringify statuses2)\<rparr>)
              in if st \<noteq> NotApplied then recordStatusHistory jid jtitle cname st now w2
                 else w2)))"

text \<open>\<^verbatim>\<open>clearJobStatuses\<close>: \<^verbatim>\<open>localStorage.removeItem(STATUS_KEY)\<close>.\<close>

definition clearJobStatuses :: "window \<Rightarrow> window" where
  "clearJobStatuses w =
     (case w of None \<Rightarrow> None | Some ls \<Rightarrow> Some (ls\<lparr>jobTrackerStatus := None\<rparr>))"

subsection \<open>Sequences of status changes\<close>

text \<open>
  A status change is one call \<^verbatim>\<open>saveJobStatus(jobId, status, jobTitle, company)\<close>
  together with the clock reading at that call, as the pages make it from
  \<^verbatim>\<open>handleStatusChange\<close>. \<open>saveAll\<close> makes the calls of a list one after the other.
  \<open>changing cs w\<close> says that every call of \<open>cs\<close>, at the moment it is made, has a
  status other than the default and other than the one stored for its job id.
  \<open>entryOf\<close> is the history entry that a call writes.
\<close>

type_synonym change = "string \<times> JobStatus \<times> string \<times> string \<times> string"

fun saveAll :: "change list \<Rightarrow> window \<Rightarrow> window" where
  "saveAll [] w = w"
| "saveAll ((jid, st, jtitle, cname, now) # cs) w =
     saveAll cs (saveJobStatus jid st jtitle cname now w)"

fun changing :: "change list \<Rightarrow> window \<Rightarrow> bool" where
  "changing [] w = True"
| "changing ((jid, st, jtitle, cname, now) # cs) w =
     (loadJobStatuses w jid \<noteq> Some st \<and> st \<noteq> NotApplied \<and>
      changing cs (saveJobStatus jid st jtitle cname now w))"

fun entryOf :: "change \<Rightarrow> StatusHistoryEntry" where
  "entryOf (jid, st, jtitle, cname, now) =
     \<lparr>jobId = jid, jobTitle = jtitle, company' = cname, status' = st, changedAt = now\<rparr>"

section \<open>Sorting and strings of the platform\<close>

text \<open>
  \<^verbatim>\<open>Array.prototype.sort(compareFn)\<close> is stable, and for a comparator that orders the
  elements consistently its result is the one stable arrangement in which \<open>a\<close> comes
  before \<open>b\<close> only if \<^verbatim>\<open>compareFn(a, b) <= 0\<close>. Insertion from the right computes
  that arrangement: an element goes in front of the first element it does not exceed.
\<close>

fun insertBy :: "('a \<Rightarrow> 'a \<Rightarrow> int) \<Rightarrow> 'a \<Rightarrow> 'a list \<Rightarrow> 'a list" where
  "insertBy cmp x [] = [x]"
| "insertBy cmp x (y # ys) = (if cmp x y \<le> 0 then x # y # ys else y # insertBy cmp x ys)"

definition sort_cmp :: "('a \<Rightarrow> 'a \<Rightarrow> int) \<Rightarrow> 'a list \<Rightarrow> 'a list" where
  "sort_cmp cmp xs = foldr (insertBy cmp) xs []"

text \<open>
  Lower case on the letters A to Z, with every other character left as it is. On a text of
  ASCII characters this is what \<^verbatim>\<open>String.prototype.toLowerCase\<close> gives. It is the case
  folding of the modelled scorer and the instance at the example data; the functions of
  the dashboard take the platform's \<^verbatim>\<open>toLowerCase\<close> as their parameter \<open>lower\<close>, so
  what is proved of them holds for it on every text.
\<close>

definition toLowerCase :: "string \<Rightarrow> string" where
  "toLowerCase s =
     map (\<lambda>c. case map_of (zip ''ABCDEFGHIJKLMNOPQRSTUVWXYZ'' ''abcdefghijklmnopqrstuvwxyz'') c of
                Some l \<Rightarrow> l
              | None \<Rightarrow> c) s"

text \<open>\<^verbatim>\<open>s.includes(k)\<close>: \<open>k\<close> occurs in \<open>s\<close> as a substring.\<close>

fun startsWith :: "string \<Rightarrow> string \<Rightarrow> bool" where
  "startsWith s [] = True"
| "startsWith [] (k # ks) = False"
| "startsWith (c # cs) (k # ks) = (c = k \<and> startsWith cs ks)"

fun includes' :: "string \<Rightarrow> string \<Rightarrow> bool" where
  "includes' [] k = (k = [])"
| "includes' (c # cs) k = (startsWith (c # cs) k \<or> includes' cs k)"

text \<open>
  \<^verbatim>\<open>s.match(/\d+/)\<close>: the first maximal run of the digits 0 to 9, or \<^verbatim>\<open>null\<close> where
  the string has no digit. \<^verbatim>\<open>parseInt\<close> of a run of digits is its decimal value (exact
  below \<open>2 ^ 53\<close>, which salaries are).
\<close>

definition isDigit :: "char \<Rightarrow> bool" where
  "isDigit c = (c \<in> set ''0123456789'')"

definition digitValue :: "char \<Rightarrow> int" where
  "digitValue c = int (of_char c) - 48"

definition parseInt :: "string \<Rightarrow> int" where
  "parseInt ds = foldl (\<lambda>n c. 10 * n + digitValue c) 0 ds"

definition matchDigits :: "string \<Rightarrow> string option" where
  "matchDigits s =
     (let m = takeWhile isDigit (dropWhile (\<lambda>c. \<not> isDigit c) s)
      in if m = [] then None else Some m)"

text \<open>\<^verbatim>\<open>String(n)\<close> for a natural number, and \<^verbatim>\<open>s.padStart(n, c)\<close>.\<close>

fun digits :: "nat \<Rightarrow> string" where
  "digits n =
     (if n < 10 then [''0123456789'' ! n]
      else digits (n div 10) @ [''0123456789'' ! (n mod 10)])"

declare digits.simps [simp del]

definition padStart :: "nat \<Rightarrow> char \<Rightarrow> string \<Rightarrow> string" where
  "padStart n c s = replicate (n - length s) c @ s"

section \<open>Dashboard (dashboard/page.tsx)\<close>

text \<open>\<^verbatim>\<open>getFirstNum\<close>, the local function of both salary comparators.\<close>

definition getFirstNum :: "string \<Rightarrow> int" where
  "getFirstNum s = (case matchDigits s of Some m \<Rightarrow> parseInt m | None \<Rightarrow> 0)"

text \<open>\<^verbatim>\<open>job.matchScore ?? 0\<close>.\<close>

definition orZero :: "int option \<Rightarrow> int" where
  "orZero s = (case s of None \<Rightarrow> 0 | Some v \<Rightarrow> v)"

text \<open>
  \<^verbatim>\<open>jobsWithScores\<close>. The function \<^verbatim>\<open>calculateMatchScore\<close> of lib/matchScore.ts
  and the list \<^verbatim>\<open>jobs\<close> of data/jobs.ts are not among the sources; they are the
  parameters \<open>scorer\<close> and \<open>allJobs\<close>.
\<close>

definition jobsWithScores ::
  "(Job \<Rightarrow> Preferences \<Rightarrow> int) \<Rightarrow> Job list \<Rightarrow> Preferences option \<Rightarrow>
   int option ScoredJob list" where
  "jobsWithScores scorer allJobs preferences =
     (case preferences of
        None \<Rightarrow> map (\<lambda>job. withScore job None) allJobs
      | Some p \<Rightarrow> map (\<lambda>job. withScore job (Some (scorer job p))) allJobs)"

text \<open>\<^verbatim>\<open>const minMatchScore = preferences?.minMatchScore ?? 40;\<close>\<close>

definition minMatchScoreOf :: "Preferences option \<Rightarrow> int" where
  "minMatchScoreOf preferences = (case preferences of None \<Rightarrow> 40 | Some p \<Rightarrow> minMatchScore p)"

text \<open>
  The function that \<^verbatim>\<open>const filteredJobs = useMemo(() => { ... }, [...])\<close> is given
  (lines 119 to 197) is a chain of seven guarded \<^verbatim>\<open>result = result.filter(...)\<close>
  statements and a \<^verbatim>\<open>switch\<close> that sorts. Each statement is a function here, in the
  order of the source; a string guard \<^verbatim>\<open>if (filters.keyword)\<close> holds for a non-empty
  string. \<open>filteredJobs\<close> below is one run of that function on the state it reads;
  which run's value the page holds is \<open>renderFilteredJobs\<close> further down.
\<close>

definition scoreFilter ::
  "bool \<Rightarrow> Preferences option \<Rightarrow> int option ScoredJob list \<Rightarrow> int option ScoredJob list" where
  "scoreFilter showOnlyMatches preferences result =
     (if showOnlyMatches \<and> preferences \<noteq> None
      then filter (\<lambda>job. orZero (matchScore job) \<ge> minMatchScoreOf preferences) result
      else result)"

definition keywordFilter ::
  "(string \<Rightarrow> string) \<Rightarrow> Filters \<Rightarrow> int option ScoredJob list \<Rightarrow>
   int option ScoredJob list" where
  "keywordFilter lower filters result =
     (if keyword filters \<noteq> []
      then (let kw = lower (keyword filters)
            in filter (\<lambda>job. includes' (lower (title job)) kw \<or>
                             includes' (lower (company job)) kw) result)
      else result)"

definition locationFilter ::
  "Filters \<Rightarrow> int option ScoredJob list \<Rightarrow> int option ScoredJob list" where
  "locationFilter filters result =
     (if location' filters \<noteq> []
      then filter (\<lambda>job. location job = location' filters) result
      else result)"

definition modeFilter ::
  "Filters \<Rightarrow> int option ScoredJob list \<Rightarrow> int option ScoredJob list" where
  "modeFilter filters result =
     (if mode' filters \<noteq> []
      then filter (\<lambda>job. mode job = mode' filters) result
      else result)"

definition experienceFilter ::
  "Filters \<Rightarrow> int option ScoredJob list \<Rightarrow> int option ScoredJob list" where
  "experienceFilter filters result =
     (if experience' filters \<noteq> []
      then filter (\<lambda>job. experience job = experience' filters) result
      else result)"

definition sourceFilter ::
  "Filters \<Rightarrow> int option ScoredJob list \<Rightarrow> int option ScoredJob list" where
  "sourceFilter filters result =
     (if source' filters \<noteq> []
      then filter (\<lambda>job. source job = source' filters) result
      else result)"

definition statusFilter ::
  "Filters \<Rightarrow> (string \<rightharpoonup> JobStatus) \<Rightarrow> int option ScoredJob list \<Rightarrow>
   int option ScoredJob list" where
  "statusFilter filters jobStatuses result =
     (if status filters \<noteq> None
      then filter (\<lambda>job.
             (let jobStatus = (case jobStatuses (id' job) of None \<Rightarrow> NotApplied | Some s \<Rightarrow> s)
              in Some jobStatus = status filters)) result
      else result)"

text \<open>The \<^verbatim>\<open>switch (filters.sort)\<close>; it has no default case, so any other string
  leaves the order as it is.\<close>

definition sortJobs ::
  "Filters \<Rightarrow> int option ScoredJob list \<Rightarrow> int option ScoredJob list" where
  "sortJobs filters result =
     (if sort' filters = ''latest'' then
        sort_cmp (\<lambda>a b. postedDaysAgo a - postedDaysAgo b) result
      else if sort' filters = ''oldest'' then
        sort_cmp (\<lambda>a b. postedDaysAgo b - postedDaysAgo a) result
      else if sort' filters = ''match-score'' then
        sort_cmp (\<lambda>a b. orZero (matchScore b) - orZero (matchScore a)) result
      else if sort' filters = ''salary-high'' then
        sort_cmp (\<lambda>a b. getFirstNum (salaryRange b) - getFirstNum (salaryRange a)) result
      else if sort' filters = ''salary-low'' then
        sort_cmp (\<lambda>a b. getFirstNum (salaryRange a) - getFirstNum (salaryRange b)) result
      else result)"

definition filteredJobs ::
  "(string \<Rightarrow> string) \<Rightarrow> Filters \<Rightarrow> int option ScoredJob list \<Rightarrow> bool \<Rightarrow>
   Preferences option \<Rightarrow> (string \<rightharpoonup> JobStatus) \<Rightarrow> int option ScoredJob list" where
  "filteredJobs lower filters jws showOnlyMatches preferences jobStatuses =
     sortJobs filters
       (statusFilter filters jobStatuses
         (sourceFilter filters
           (experienceFilter filters
             (modeFilter filters
               (locationFilter filters
                 (keywordFilter lower filters
                   (scoreFilter showOnlyMatches preferences jws)))))))"

text \<open>
  The filter statements as a list, in the order of the source, and a run of any list of
  such statements, one after the other. \<open>satisfiesAll\<close> follows the words of the
  specification: a job satisfies every active filter, the conjunction over all seven.
\<close>

definition filterSteps ::
  "(string \<Rightarrow> string) \<Rightarrow> Filters \<Rightarrow> bool \<Rightarrow> Preferences option \<Rightarrow>
   (string \<rightharpoonup> JobStatus) \<Rightarrow>
   (int option ScoredJob list \<Rightarrow> int option ScoredJob list) list" where
  "filterSteps lower filters showOnlyMatches preferences jobStatuses =
     [scoreFilter showOnlyMatches preferences, keywordFilter lower filters, locationFilter filters,
      modeFilter filters, experienceFilter filters, sourceFilter filters,
      statusFilter filters jobStatuses]"

definition runSteps :: "('a list \<Rightarrow> 'a list) list \<Rightarrow> 'a list \<Rightarrow> 'a list" where
  "runSteps steps result = fold (\<lambda>step r. step r) steps result"

definition satisfiesAll ::
  "(string \<Rightarrow> string) \<Rightarrow> Filters \<Rightarrow> bool \<Rightarrow> Preferences option \<Rightarrow>
   (string \<rightharpoonup> JobStatus) \<Rightarrow> int option ScoredJob \<Rightarrow> bool" where
  "satisfiesAll lower filters showOnlyMatches preferences jobStatuses job =
     ((showOnlyMatches \<and> preferences \<noteq> None \<longrightarrow>
         orZero (matchScore job) \<ge> minMatchScoreOf preferences) \<and>
      (keyword filters \<noteq> [] \<longrightarrow>
         includes' (lower (title job)) (lower (keyword filters)) \<or>
         includes' (lower (company job)) (lower (keyword filters))) \<and>
      (location' filters \<noteq> [] \<longrightarrow> location job = location' filters) \<and>
      (mode' filters \<noteq> [] \<longrightarrow> mode job = mode' filters) \<and>
      (experience' filters \<noteq> [] \<longrightarrow> experience job = experience' filters) \<and>
      (source' filters \<noteq> [] \<longrightarrow> source job = source' filters) \<and>
      (status filters \<noteq> None \<longrightarrow>
         Some (case jobStatuses (id' job) of None \<Rightarrow> NotApplied | Some s \<Rightarrow> s) =
           status filters))"

subsection \<open>The memoised list and the status handler\<close>

text \<open>
  \<^verbatim>\<open>useMemo(calculate, deps)\<close> over the renders of a component. React keeps the
  dependencies and the value of the last run of \<^verbatim>\<open>calculate\<close>: \<open>kept\<close>, which is
  \<open>None\<close> before the first render. In a render whose dependencies are each the same
  as the kept ones (\<^verbatim>\<open>Object.is\<close>) it returns the kept value and does not run
  \<^verbatim>\<open>calculate\<close>; otherwise it runs it, returns its value \<open>calculated\<close> and keeps
  that with the dependencies. On this page a state object is replaced only by a setter that
  changes its content, so that the same object is an equal value.
\<close>

definition useMemo :: "('d \<times> 'v) option \<Rightarrow> 'v \<Rightarrow> 'd \<Rightarrow> 'v \<times> ('d \<times> 'v) option" where
  "useMemo kept calculated deps =
     (case kept of
        None \<Rightarrow> (calculated, Some (deps, calculated))
      | Some (d, v) \<Rightarrow> if d = deps then (v, kept) else (calculated, Some (deps, calculated)))"

text \<open>
  The state of \<^verbatim>\<open>DashboardPage\<close> that the list depends on: the \<^verbatim>\<open>useState\<close> values
  \<^verbatim>\<open>filters\<close>, \<^verbatim>\<open>showOnlyMatches\<close>, \<^verbatim>\<open>preferences\<close> and \<^verbatim>\<open>jobStatuses\<close>
  (their fields end in \<open>State\<close>, the plain names being variables of the definitions
  above), and what \<^verbatim>\<open>useMemo\<close> keeps for \<^verbatim>\<open>filteredJobs\<close>. The dependencies are
  \<^verbatim>\<open>[filters, jobsWithScores, showOnlyMatches, minMatchScore, preferences]\<close> (line 198).
\<close>

type_synonym filteredJobsDeps =
  "Filters \<times> int option ScoredJob list \<times> bool \<times> int \<times> Preferences option"

record DashboardPage =
  filtersState :: Filters
  showOnlyMatchesState :: bool
  preferencesState :: "Preferences option"
  jobStatusesState :: "string \<rightharpoonup> JobStatus"
  filteredJobsKept :: "(filteredJobsDeps \<times> int option ScoredJob list) option"

text \<open>
  One render of the page, as far as \<^verbatim>\<open>filteredJobs\<close> goes: the list that the page shows
  and the page with what \<^verbatim>\<open>useMemo\<close> keeps. The function reads \<^verbatim>\<open>jobStatuses\<close>
  (line 160), which is not among the dependencies. \<^verbatim>\<open>jobsWithScores\<close> is itself
  memoised, on \<^verbatim>\<open>[preferences]\<close>, which determine it.
\<close>

definition renderFilteredJobs ::
  "(string \<Rightarrow> string) \<Rightarrow> (Job \<Rightarrow> Preferences \<Rightarrow> int) \<Rightarrow> Job list \<Rightarrow> DashboardPage \<Rightarrow>
   int option ScoredJob list \<times> DashboardPage" where
  "renderFilteredJobs lower scorer allJobs page =
     (let jws = jobsWithScores scorer allJobs (preferencesState page);
          memo = useMemo (filteredJobsKept page)
                   (filteredJobs lower (filtersState page) jws (showOnlyMatchesState page)
                      (preferencesState page) (jobStatusesState page))
                   (filtersState page, jws, showOnlyMatchesState page,
                    minMatchScoreOf (preferencesState page), preferencesState page)
      in (fst memo, page\<lparr>filteredJobsKept := snd memo\<rparr>))"

text \<open>
  \<^verbatim>\<open>handleStatusChange(jobId, newStatus)\<close> (lines 96 to 103), on the store and the page,
  with the clock reading \<open>now\<close> of \<^verbatim>\<open>saveJobStatus\<close>: it saves the status of a job of
  the list and sets \<^verbatim>\<open>jobStatuses\<close> to the map loaded anew. The toast it shows is not
  part of the model.
\<close>

definition handleStatusChange ::
  "Job list \<Rightarrow> string \<Rightarrow> JobStatus \<Rightarrow> string \<Rightarrow> window \<times> DashboardPage \<Rightarrow>
   window \<times> DashboardPage" where
  "handleStatusChange allJobs jid newStatus now wp =
     (case find (\<lambda>j. id' j = jid) allJobs of
        None \<Rightarrow> wp
      | Some job \<Rightarrow>
          (let w = saveJobStatus jid newStatus (title job) (company job) now (fst wp)
           in (w, (snd wp)\<lparr>jobStatusesState := loadJobStatuses w\<rparr>)))"

section \<open>Digest (digest/page.tsx)\<close>

definition getTodayKey :: "Date \<Rightarrow> string" where
  "getTodayKey today =
     ''jobTrackerDigest_'' @ digits (getFullYear today) @ ''-'' @
     padStart 2 (CHR ''0'') (digits (getMonth today + 1)) @ ''-'' @
     padStart 2 (CHR ''0'') (digits (getDate today))"

text \<open>The comparator that \<^verbatim>\<open>generateDigest\<close> passes to \<^verbatim>\<open>sort\<close>.\<close>

definition digestCompare :: "int ScoredJob \<Rightarrow> int ScoredJob \<Rightarrow> int" where
  "digestCompare a b =
     (if matchScore b \<noteq> matchScore a then matchScore b - matchScore a
      else postedDaysAgo a - postedDaysAgo b)"

text \<open>
  \<^verbatim>\<open>generateDigest(preferences)\<close>, with the scorer and the job list as parameters (see
  \<open>jobsWithScores\<close>) and with \<open>today\<close> the clock reading \<^verbatim>\<open>new Date()\<close> it takes.
  \<^verbatim>\<open>toISOString().split("T")[0]\<close> is the text in front of the first \<^verbatim>\<open>T\<close>.
\<close>

definition generateDigest ::
  "(Job \<Rightarrow> Preferences \<Rightarrow> int) \<Rightarrow> Job list \<Rightarrow> Preferences option \<Rightarrow> Date \<Rightarrow> DigestData" where
  "generateDigest scorer allJobs preferences today =
     (let jobsWithScores =
            map (\<lambda>job. withScore job
                   (case preferences of Some p \<Rightarrow> scorer job p | None \<Rightarrow> 0))
              allJobs;
          sortedJobs = sort_cmp digestCompare jobsWithScores;
          topJobs = take 10 sortedJobs
      in \<lparr>date = takeWhile (\<lambda>c. c \<noteq> CHR ''T'') (toISOString today),
          jobs = topJobs,
          generatedAt = toISOString today\<rparr>)"

text \<open>
  The callback of \<^verbatim>\<open>handleGenerateDigest\<close>, run after the delay: it generates the digest
  at the clock reading \<open>today\<close>, stores it under the key of the clock reading
  \<open>keyDay\<close> that \<^verbatim>\<open>getTodayKey\<close> takes, and sets the page's \<^verbatim>\<open>digest\<close> state,
  returned as the second component.
\<close>

definition handleGenerateDigest ::
  "(Job \<Rightarrow> Preferences \<Rightarrow> int) \<Rightarrow> Job list \<Rightarrow> Preferences option \<Rightarrow> Date \<Rightarrow> Date \<Rightarrow>
   localStorage \<Rightarrow> localStorage \<times> DigestData option" where
  "handleGenerateDigest scorer allJobs preferences today keyDay ls =
     (let newDigest = generateDigest scorer allJobs preferences today;
          todayKey = getTodayKey keyDay
      in (ls\<lparr>digestItems := (digestItems ls)(todayKey \<mapsto> JSON_stringify newDigest)\<rparr>,
          Some newDigest))"

text \<open>The order the digest is documented to have: a higher score first, and for equal
  scores the job posted fewer days ago first.\<close>

definition digestOrder :: "int ScoredJob \<Rightarrow> int ScoredJob \<Rightarrow> bool" where
  "digestOrder a b =
     (matchScore a > matchScore b \<or>
      (matchScore a = matchScore b \<and> postedDaysAgo a \<le> postedDaysAgo b))"

section \<open>Match scorer (lib/matchScore.ts)\<close>

text \<open>
  Modelled from the spec: the function \<^verbatim>\<open>calculateMatchScore\<close> of lib/matchScore.ts is
  not among the sources. Section 4.1 of the specification describes it: the score grows
  with the number of role keywords found in the job title regardless of case, with the
  number of preferred skills among the job's skills, and with a location match. These are
  the three counts.
\<close>

definition matchedKeywords :: "Job \<Rightarrow> Preferences \<Rightarrow> nat" where
  "matchedKeywords job p =
     length (filter (\<lambda>k. includes' (toLowerCase (title job)) (toLowerCase k))
               (remdups (roleKeywords p)))"

text \<open>Modelled from the spec: the matched skills, the preferred skills that are among the
  job's skills (see \<open>matchedKeywords\<close>).\<close>

definition matchedSkills :: "Job \<Rightarrow> Preferences \<Rightarrow> nat" where
  "matchedSkills job p = length (filter (\<lambda>s. s \<in> set (skills job)) (remdups (skills' p)))"

text \<open>Modelled from the spec: the location match (see \<open>matchedKeywords\<close>).\<close>

definition locationMatch :: "Job \<Rightarrow> Preferences \<Rightarrow> bool" where
  "locationMatch job p = (location job \<in> set (locations p))"

text \<open>
  Modelled from the spec: \<^verbatim>\<open>calculateMatchScore\<close> itself. The specification leaves the
  weighting of the three counts open, as an internal policy; it is the parameter
  \<open>weighting\<close>. The result is an integer, saturated at 100 and floored at 0.
\<close>

definition calculateMatchScore ::
  "(nat \<Rightarrow> nat \<Rightarrow> bool \<Rightarrow> int) \<Rightarrow> Job \<Rightarrow> Preferences \<Rightarrow> int" where
  "calculateMatchScore weighting job p =
     max 0 (min 100 (weighting (matchedKeywords job p) (matchedSkills job p)
                        (locationMatch job p)))"

section \<open>Example data\<close>

text \<open>
  Concrete stores, a run of 21 status changes of one job, alternating between
  \<open>Applied\<close> and \<open>Rejected\<close>, two jobs with the salary texts of the specification's
  example (the rupee sign is the three bytes of its UTF-8 encoding; none of them is a
  digit), filter settings, two clock readings of one day, a scorer and a weighting, on
  which the theorems below are instantiated.
\<close>

definition store1 :: localStorage where
  "store1 = \<lparr>jobTrackerStatus = Some (Json [''job-1'' \<mapsto> Applied]),
             jobTrackerStatusHistory = None, digestItems = Map.empty\<rparr>"

definition store0 :: localStorage where
  "store0 = \<lparr>jobTrackerStatus = None, jobTrackerStatusHistory = None, digestItems = Map.empty\<rparr>"

definition changes21 :: "change list" where
  "changes21 =
    [(''job-1'', Applied, ''Backend Engineer'', ''Acme'', ''2024-01-01T09:00:00.000Z''),
     (''job-1'', Rejected, ''Backend Engineer'', ''Acme'', ''2024-01-02T09:00:00.000Z''),
     (''job-1'', Applied, ''Backend Engineer'', ''Acme'', ''2024-01-03T09:00:00.000Z''),
     (''job-1'', Rejected, ''Backend Engineer'', ''Acme'', ''2024-01-04T09:00:00.000Z''),
     (''job-1'', Applied, ''Backend Engineer'', ''Acme'', ''2024-01-05T09:00:00.000Z''),
     (''job-1'', Rejected, ''Backend Engineer'', ''Acme'', ''2024-01-06T09:00:00.000Z''),
     (''job-1'', Applied, ''Backend Engineer'', ''Acme'', ''2024-01-07T09:00:00.000Z''),
     (''job-1'', Rejected, ''Backend Engineer'', ''Acme'', ''2024-01-08T09:00:00.000Z''),
     (''job-1'', Applied, ''Backend Engineer'', ''Acme'', ''2024-01-09T09:00:00.000Z''),
     (''job-1'', Rejected, ''Backend Engineer'', ''Acme'', ''2024-01-10T09:00:00.000Z''),
     (''job-1'', Applied, ''Backend Engineer'', ''Acme'', ''2024-01-11T09:00:00.000Z''),
     (''job-1'', Rejected, ''Backend Engineer'', ''Acme'', ''2024-01-12T09:00:00.000Z''),
     (''job-1'', Applied, ''Backend Engineer'', ''Acme'', ''2024-01-13T09:00:00.000Z''),
     (''job-1'', Rejected, ''Backend Engineer'', ''Acme'', ''2024-01-14T09:00:00.000Z''),
     (''job-1'', Applied, ''Backend Engineer'', ''Acme'', ''2024-01-15T09:00:00.000Z''),
     (''job-1'', Rejected, ''Backend Engineer'', ''Acme'', ''2024-01-16T09:00:00.000Z''),
     (''job-1'', Applied, ''Backend Engineer'', ''Acme'', ''2024-01-17T09:00:00.000Z''),
     (''job-1'', Rejected, ''Backend Engineer'', ''Acme'', ''2024-01-18T09:00:00.000Z''),
     (''job-1'', Applied, ''Backend Engineer'', ''Acme'', ''2024-01-19T09:00:00.000Z''),
     (''job-1'', Rejected, ''Backend Engineer'', ''Acme'', ''2024-01-20T09:00:00.000Z''),
     (''job-1'', Applied, ''Backend Engineer'', ''Acme'', ''2024-01-21T09:00:00.000Z'')]"

definition salary15 :: string where
  "salary15 = [CHR 0xE2, CHR 0x82, CHR 0xB9] @ ''15-25 LPA''"

definition salary10 :: string where
  "salary10 = [CHR 0xE2, CHR 0x82, CHR 0xB9] @ ''10-18 LPA''"

definition jobA :: Job where
  "jobA = \<lparr>id' = ''job-1'', title = ''Backend Engineer'', company = ''Acme'',
           location = ''Pune'', mode = ''Remote'', experience = ''1-3'',
           salaryRange = salary15, skills = [''Go'', ''SQL''], source = ''LinkedIn'',
           postedDaysAgo = 2, applyUrl = ''https://example.com/1''\<rparr>"

definition jobB :: Job where
  "jobB = \<lparr>id' = ''job-2'', title = ''Frontend Developer'', company = ''Globex'',
           location = ''Delhi'', mode = ''Onsite'', experience = ''3-5'',
           salaryRange = salary10, skills = [''React''], source = ''Naukri'',
           postedDaysAgo = 5, applyUrl = ''https://example.com/2''\<rparr>"

definition scoredJobs0 :: "int option ScoredJob list" where
  "scoredJobs0 = [withScore jobB (Some 30), withScore jobA (Some 80)]"

definition filters0 :: Filters where
  "filters0 = \<lparr>keyword = ''ENGINEER'', location' = [], mode' = ''Remote'', experience' = [],
               source' = [], status = Some Applied, sort' = ''latest''\<rparr>"

definition morning :: Date where
  "morning = \<lparr>getFullYear = 2024, getMonth = 0, getDate = 5,
               toISOString = ''2024-01-05T09:00:00.000Z''\<rparr>"

definition evening :: Date where
  "evening = \<lparr>getFullYear = 2024, getMonth = 0, getDate = 5,
               toISOString = ''2024-01-05T18:30:00.000Z''\<rparr>"

definition scorer0 :: "Job \<Rightarrow> Preferences \<Rightarrow> int" where
  "scorer0 job p = (if location job \<in> set (locations p) then 80 else 30)"

definition preferences0 :: Preferences where
  "preferences0 = \<lparr>roleKeywords = [''backend''], locations = [''Pune''], skills' = [''Go''],
                    minMatchScore = 40\<rparr>"

definition weighting0 :: "nat \<Rightarrow> nat \<Rightarrow> bool \<Rightarrow> int" where
  "weighting0 k s l = 25 * int k + 15 * int s + (if l then 15 else 0)"

text \<open>
  The dashboard with the status filter set to \<open>Applied\<close>, over the store in which the
  first job is \<open>Applied\<close>, and the store and the page after that page was rendered and
  the status of the first job was then changed to \<open>Rejected\<close>.
\<close>

definition filtersApplied :: Filters where
  "filtersApplied = \<lparr>keyword = [], location' = [], mode' = [], experience' = [],
                     source' = [], status = Some Applied, sort' = ''latest''\<rparr>"

definition pageApplied :: DashboardPage where
  "pageApplied = \<lparr>filtersState = filtersApplied, showOnlyMatchesState = False,
                  preferencesState = None, jobStatusesState = loadJobStatuses (Some store1),
                  filteredJobsKept = None\<rparr>"

definition afterChange :: "window \<times> DashboardPage" where
  "afterChange =
     handleStatusChange [jobA, jobB] ''job-1'' Rejected ''2024-01-05T09:00:00.000Z''
       (Some store1, snd (renderFilteredJobs toLowerCase scorer0 [jobA, jobB] pageApplied))"

section \<open>Properties of the status tracker\<close>

lemma loadJobStatuses_after_write:
  "loadJobStatuses (Some (ls\<lparr>jobTrackerStatus := Some (JSON_stringify m)\<rparr>)) = m"
  by (simp add: loadJobStatuses_def truthy_def JSON_parse_def JSON_stringify_def)

lemma loadStatusHistory_after_write:
  "loadStatusHistory (Some (ls\<lparr>jobTrackerStatusHistory := Some (JSON_stringify h)\<rparr>)) = h"
  by (simp add: loadStatusHistory_def truthy_def JSON_parse_def JSON_stringify_def)

lemma loadStatusHistory_status_write:
  "loadStatusHistory (Some (ls\<lparr>jobTrackerStatus := x\<rparr>)) = loadStatusHistory (Some ls)"
  by (simp add: loadStatusHistory_def)

lemma loadJobStatuses_history_write:
  "loadJobStatuses (Some (ls\<lparr>jobTrackerStatusHistory := x\<rparr>)) = loadJobStatuses (Some ls)"
  by (simp add: loadJobStatuses_def)

lemma saveJobStatus_same:
  "loadJobStatuses w jid = Some st \<Longrightarrow> saveJobStatus jid st jtitle cname now w = w"
  by (cases w) (simp_all add: saveJobStatus_def)

lemma saveJobStatus_statuses:
  "loadJobStatuses (saveJobStatus jid st jtitle cname now (Some ls)) =
     (loadJobStatuses (Some ls))(jid \<mapsto> st)"
proof (cases "loadJobStatuses (Some ls) jid = Some st")
  case True
  then show ?thesis
    by (simp add: saveJobStatus_same map_upd_triv)
next
  case False
  then show ?thesis
    by (simp add: saveJobStatus_def recordStatusHistory_def Let_def
        loadJobStatuses_after_write loadJobStatuses_history_write)
qed

lemma saveJobStatus_history:
  "loadStatusHistory (saveJobStatus jid st jtitle cname now (Some ls)) =
     (if loadJobStatuses (Some ls) jid = Some st \<or> st = NotApplied
      then loadStatusHistory (Some ls)
      else take 20 (entryOf (jid, st, jtitle, cname, now) # loadStatusHistory (Some ls)))"
  by (simp add: saveJobStatus_def recordStatusHistory_def Let_def
      loadStatusHistory_after_write loadStatusHistory_status_write)

lemma saveJobStatus_window:
  "(saveJobStatus jid st jtitle cname now w = None) = (w = None)"
  by (cases w) (simp_all add: saveJobStatus_def recordStatusHistory_def Let_def)

lemma take_append_take: "take n (xs @ take n ys) = take n (xs @ ys)"
  by (simp add: min_def)

lemma saveJobStatus_Some:
  "\<exists>ls2. saveJobStatus jid st jtitle cname now (Some ls) = Some ls2"
  using saveJobStatus_window [of jid st jtitle cname now "Some ls"] by (cases "saveJobStatus jid st jtitle cname now (Some ls)") auto

lemma history_saveAll_capped:
  "changing cs (Some ls) \<Longrightarrow> length (loadStatusHistory (Some ls)) \<le> 20 \<Longrightarrow>
   loadStatusHistory (saveAll cs (Some ls)) =
     take 20 (rev (map entryOf cs) @ loadStatusHistory (Some ls))"
proof (induction cs arbitrary: ls)
  case Nil
  then show ?case by simp
next
  case (Cons c cs)
  obtain jid st jtitle cname now where c: "c = (jid, st, jtitle, cname, now)"
    by (cases c) auto
  obtain ls2 where ls2: "saveJobStatus jid st jtitle cname now (Some ls) = Some ls2"
    using saveJobStatus_Some by blast
  from Cons.prems c ls2 have ch: "changing cs (Some ls2)"
    and ne: "loadJobStatuses (Some ls) jid \<noteq> Some st" "st \<noteq> NotApplied"
    by simp_all
  have h2: "loadStatusHistory (Some ls2) = take 20 (entryOf c # loadStatusHistory (Some ls))"
    using saveJobStatus_history [of jid st jtitle cname now ls] ne ls2 c by simp
  then have len2: "length (loadStatusHistory (Some ls2)) \<le> 20"
    by simp
  have "loadStatusHistory (saveAll (c # cs) (Some ls)) = loadStatusHistory (saveAll cs (Some ls2))"
    using c ls2 by simp
  also have "\<dots> = take 20 (rev (map entryOf cs) @ take 20 (entryOf c # loadStatusHistory (Some ls)))"
    using Cons.IH [OF ch len2] h2 by simp
  also have "\<dots> = take 20 (rev (map entryOf cs) @ entryOf c # loadStatusHistory (Some ls))"
    by (rule take_append_take)
  also have "\<dots> = take 20 (rev (map entryOf (c # cs)) @ loadStatusHistory (Some ls))"
    by simp
  finally show ?case .
qed

lemma history_saveAll:
  assumes "changing cs (Some ls)" and "cs \<noteq> []"
  shows "loadStatusHistory (saveAll cs (Some ls)) =
     take 20 (rev (map entryOf cs) @ loadStatusHistory (Some ls))"
proof -
  from assms(2) obtain c cs2 where cs: "cs = c # cs2"
    by (cases cs) auto
  obtain jid st jtitle cname now where c: "c = (jid, st, jtitle, cname, now)"
    by (cases c) auto
  obtain ls2 where ls2: "saveJobStatus jid st jtitle cname now (Some ls) = Some ls2"
    using saveJobStatus_Some by blast
  from assms(1) cs c ls2 have ch: "changing cs2 (Some ls2)"
    and ne: "loadJobStatuses (Some ls) jid \<noteq> Some st" "st \<noteq> NotApplied"
    by simp_all
  have h2: "loadStatusHistory (Some ls2) = take 20 (entryOf c # loadStatusHistory (Some ls))"
    using saveJobStatus_history [of jid st jtitle cname now ls] ne ls2 c by simp
  then have len2: "length (loadStatusHistory (Some ls2)) \<le> 20"
    by simp
  have "loadStatusHistory (saveAll cs (Some ls)) = loadStatusHistory (saveAll cs2 (Some ls2))"
    using cs c ls2 by simp
  also have "\<dots> = take 20 (rev (map entryOf cs2) @ take 20 (entryOf c # loadStatusHistory (Some ls)))"
    using history_saveAll_capped [OF ch len2] h2 by simp
  also have "\<dots> = take 20 (rev (map entryOf cs2) @ entryOf c # loadStatusHistory (Some ls))"
    by (rule take_append_take)
  also have "\<dots> = take 20 (rev (map entryOf cs) @ loadStatusHistory (Some ls))"
    by (simp add: cs)
  finally show ?thesis .
qed

lemma history_length_saveJobStatus:
  "length (loadStatusHistory w) \<le> 20 \<Longrightarrow>
   length (loadStatusHistory (saveJobStatus jid st jtitle cname now w)) \<le> 20"
proof (cases w)
  case None
  then show ?thesis by (simp add: saveJobStatus_def loadStatusHistory_def)
next
  case (Some ls)
  assume "length (loadStatusHistory w) \<le> 20"
  with Some show ?thesis by (simp add: saveJobStatus_history)
qed

lemma history_length_saveAll:
  "length (loadStatusHistory w) \<le> 20 \<Longrightarrow> length (loadStatusHistory (saveAll cs w)) \<le> 20"
proof (induction cs arbitrary: w)
  case Nil
  then show ?case by simp
next
  case (Cons c cs)
  then show ?case
    by (cases c) (simp add: history_length_saveJobStatus)
qed

lemma changing_step:
  "changing ((jid, st, jtitle, cname, now) # cs) (Some ls) =
     (loadJobStatuses (Some ls) jid \<noteq> Some st \<and> st \<noteq> NotApplied \<and>
      changing cs (Some (ls\<lparr>jobTrackerStatus :=
                              Some (JSON_stringify ((loadJobStatuses (Some ls))(jid \<mapsto> st))),
                            jobTrackerStatusHistory :=
                              Some (JSON_stringify (take 20 (entryOf (jid, st, jtitle, cname, now) #
                                      loadStatusHistory (Some ls))))\<rparr>)))"
  by (auto simp add: saveJobStatus_def recordStatusHistory_def Let_def
      loadStatusHistory_status_write)

lemma loadJobStatuses_after_writes:
  "loadJobStatuses (Some (ls\<lparr>jobTrackerStatus := Some (JSON_stringify m),
                             jobTrackerStatusHistory := x\<rparr>)) = m"
  by (simp add: loadJobStatuses_def truthy_def JSON_parse_def JSON_stringify_def)

lemma loadStatusHistory_after_writes:
  "loadStatusHistory (Some (ls\<lparr>jobTrackerStatus := y,
                             jobTrackerStatusHistory := Some (JSON_stringify h)\<rparr>)) = h"
  by (simp add: loadStatusHistory_def truthy_def JSON_parse_def JSON_stringify_def)

lemma loadJobStatuses_store0: "loadJobStatuses (Some store0) = Map.empty" 
    by (simp add: loadJobStatuses_def store0_def truthy_def)
lemma loadStatusHistory_store0: "loadStatusHistory (Some store0) = []" 
    by (simp add: loadStatusHistory_def store0_def truthy_def)

lemma changes21_changing: "changing changes21 (Some store0)"
  unfolding changes21_def
  by (simp add: changing_step loadJobStatuses_after_writes loadStatusHistory_after_writes
      loadJobStatuses_store0 loadStatusHistory_store0 del: changing.simps(2))

subsection \<open>Claims on the status tracker\<close>

text \<open>
  Claim C2. A call of \<^verbatim>\<open>saveJobStatus\<close> with the status that the map already stores
  for the job id leaves the whole environment as it is, so no history entry is written. A
  call with a status other than the stored one and other than \<open>NotApplied\<close> writes the
  map with the job id set to the new status, and the history becomes the new entry in front
  of the old history, cut to 20 entries: one entry more where the history had room.
\<close>

theorem set_status_history:
  "(loadJobStatuses w jid = Some st \<longrightarrow> saveJobStatus jid st jtitle cname now w = w) \<and>
   (loadJobStatuses (Some ls) jid \<noteq> Some st \<and> st \<noteq> NotApplied \<longrightarrow>
      jobTrackerStatus (the (saveJobStatus jid st jtitle cname now (Some ls))) =
        Some (Json ((loadJobStatuses (Some ls))(jid \<mapsto> st))) \<and>
      getJobStatus (saveJobStatus jid st jtitle cname now (Some ls)) jid = st \<and>
      loadStatusHistory (saveJobStatus jid st jtitle cname now (Some ls)) =
        take 20 (entryOf (jid, st, jtitle, cname, now) # loadStatusHistory (Some ls)) \<and>
      (length (loadStatusHistory (Some ls)) < 20 \<longrightarrow>
         length (loadStatusHistory (saveJobStatus jid st jtitle cname now (Some ls))) =
           Suc (length (loadStatusHistory (Some ls)))))"
proof (intro conjI impI)
  assume "loadJobStatuses w jid = Some st"
  then show "saveJobStatus jid st jtitle cname now w = w"
    by (rule saveJobStatus_same)
next
  assume a: "loadJobStatuses (Some ls) jid \<noteq> Some st \<and> st \<noteq> NotApplied"
  then show "jobTrackerStatus (the (saveJobStatus jid st jtitle cname now (Some ls))) =
        Some (Json ((loadJobStatuses (Some ls))(jid \<mapsto> st)))"
    by (simp add: saveJobStatus_def recordStatusHistory_def Let_def JSON_stringify_def)
  show "getJobStatus (saveJobStatus jid st jtitle cname now (Some ls)) jid = st"
    by (simp add: getJobStatus_def saveJobStatus_statuses)
  from a show h: "loadStatusHistory (saveJobStatus jid st jtitle cname now (Some ls)) =
        take 20 (entryOf (jid, st, jtitle, cname, now) # loadStatusHistory (Some ls))"
    by (simp add: saveJobStatus_history)
  assume "length (loadStatusHistory (Some ls)) < 20"
  with h show "length (loadStatusHistory (saveJobStatus jid st jtitle cname now (Some ls))) =
           Suc (length (loadStatusHistory (Some ls)))"
    by simp
qed

theorem set_status_history_witness:
  "loadJobStatuses (Some store1) ''job-1'' = Some Applied \<and>
   saveJobStatus ''job-1'' Applied ''Backend Engineer'' ''Acme'' ''2024-01-01T09:00:00.000Z''
     (Some store1) = Some store1 \<and>
   loadJobStatuses (Some store0) ''job-1'' \<noteq> Some Applied \<and> Applied \<noteq> NotApplied \<and>
   length (loadStatusHistory (Some store0)) < 20 \<and>
   getJobStatus (saveJobStatus ''job-1'' Applied ''Backend Engineer'' ''Acme''
     ''2024-01-01T09:00:00.000Z'' (Some store0)) ''job-1'' = Applied \<and>
   length (loadStatusHistory (saveJobStatus ''job-1'' Applied ''Backend Engineer'' ''Acme''
     ''2024-01-01T09:00:00.000Z'' (Some store0))) = Suc (length (loadStatusHistory (Some store0)))"
proof -
  have h1: "loadJobStatuses (Some store1) ''job-1'' = Some Applied"
    by (simp add: loadJobStatuses_def store1_def truthy_def JSON_parse_def)
  have h2: "loadJobStatuses (Some store0) ''job-1'' \<noteq> Some Applied"
    by (simp add: loadJobStatuses_def store0_def truthy_def)
  have h3: "length (loadStatusHistory (Some store0)) < 20"
    by (simp add: loadStatusHistory_def store0_def truthy_def)
  show ?thesis
    using h1 h2 h3 set_status_history [where w = "Some store1" and ls = store0
        and jid = "''job-1''" and st = Applied and jtitle = "''Backend Engineer''"
        and cname = "''Acme''" and now = "''2024-01-01T09:00:00.000Z''"]
    by blast
qed

text \<open>
  Claim C3. A history of at most 20 entries still has at most 20 after any run of calls of
  \<^verbatim>\<open>saveJobStatus\<close>. After a non-empty run of calls that each change the stored status
  to a non-default one, the history is the entries of the calls, newest first, in front of
  the old history, cut to 20; after 21 such calls it is exactly the entries of the last 20
  calls, newest first, and the entry of the first call is gone.
\<close>

theorem history_capped_newest_first:
  "(length (loadStatusHistory w) \<le> 20 \<longrightarrow> length (loadStatusHistory (saveAll cs w)) \<le> 20) \<and>
   (changing cs (Some ls) \<and> cs \<noteq> [] \<longrightarrow>
      loadStatusHistory (saveAll cs (Some ls)) =
        take 20 (rev (map entryOf cs) @ loadStatusHistory (Some ls))) \<and>
   (changing cs (Some ls) \<and> length cs = 21 \<longrightarrow>
      length (loadStatusHistory (saveAll cs (Some ls))) = 20 \<and>
      loadStatusHistory (saveAll cs (Some ls)) = rev (map entryOf (tl cs)))"
proof (intro conjI impI)
  assume "length (loadStatusHistory w) \<le> 20"
  then show "length (loadStatusHistory (saveAll cs w)) \<le> 20"
    by (rule history_length_saveAll)
next
  assume "changing cs (Some ls) \<and> cs \<noteq> []"
  then show "loadStatusHistory (saveAll cs (Some ls)) =
        take 20 (rev (map entryOf cs) @ loadStatusHistory (Some ls))"
    by (simp add: history_saveAll)
next
  assume a: "changing cs (Some ls) \<and> length cs = 21"
  then have ne: "cs \<noteq> []" by auto
  then obtain c cs2 where cs: "cs = c # cs2" by (cases cs) auto
  with a have len2: "length cs2 = 20" by simp
  have "loadStatusHistory (saveAll cs (Some ls)) =
        take 20 (rev (map entryOf cs) @ loadStatusHistory (Some ls))"
    using a ne by (simp add: history_saveAll)
  also have "\<dots> = rev (map entryOf cs2)"
    using len2 by (simp add: cs)
  finally show e: "loadStatusHistory (saveAll cs (Some ls)) = rev (map entryOf (tl cs))"
    by (simp add: cs)
  show "length (loadStatusHistory (saveAll cs (Some ls))) = 20"
    using e len2 by (simp add: cs)
qed

theorem history_capped_newest_first_witness:
  "length (loadStatusHistory (Some store0)) \<le> 20 \<and>
   changing changes21 (Some store0) \<and> changes21 \<noteq> [] \<and> length changes21 = 21 \<and>
   length (loadStatusHistory (saveAll changes21 (Some store0))) = 20 \<and>
   loadStatusHistory (saveAll changes21 (Some store0)) = rev (map entryOf (tl changes21))"
proof -
  have h0: "length (loadStatusHistory (Some store0)) \<le> 20"
    by (simp add: loadStatusHistory_def store0_def truthy_def)
  have h2: "changes21 \<noteq> []" "length changes21 = 21"
    by (simp_all add: changes21_def)
  show ?thesis
    using h0 h2 changes21_changing
      history_capped_newest_first [where w = "Some store0" and ls = store0 and cs = changes21]
    by blast
qed


text \<open>
  Claim C9. Where the text stored for the status map does not parse, \<^verbatim>\<open>loadJobStatuses\<close>
  returns the empty map; where the text stored for the history does not parse,
  \<^verbatim>\<open>loadStatusHistory\<close> returns the empty list: both catch the error of
  \<^verbatim>\<open>JSON.parse\<close>. \<^verbatim>\<open>getJobStatus\<close> then returns \<open>NotApplied\<close> for every job
  id, as it does for every job id that is not a key of the loaded map.
\<close>

theorem malformed_state_defaults:
  "loadJobStatuses (Some (ls\<lparr>jobTrackerStatus := Some (Unparsable s)\<rparr>)) = Map.empty \<and>
   loadStatusHistory (Some (ls\<lparr>jobTrackerStatusHistory := Some (Unparsable s)\<rparr>)) = [] \<and>
   getJobStatus (Some (ls\<lparr>jobTrackerStatus := Some (Unparsable s)\<rparr>)) jid = NotApplied \<and>
   (loadJobStatuses w jid = None \<longrightarrow> getJobStatus w jid = NotApplied)"
  by (simp add: loadJobStatuses_def loadStatusHistory_def getJobStatus_def truthy_def
      JSON_parse_def)

theorem malformed_state_defaults_witness:
  "loadJobStatuses (Some store1) ''job-2'' = None \<and>
   getJobStatus (Some store1) ''job-2'' = NotApplied \<and>
   loadJobStatuses (Some (store1\<lparr>jobTrackerStatus := Some (Unparsable ''{oops'')\<rparr>)) = Map.empty"
proof -
  have h: "loadJobStatuses (Some store1) ''job-2'' = None"
    by (simp add: loadJobStatuses_def store1_def truthy_def JSON_parse_def)
  show ?thesis
    using h malformed_state_defaults [where ls = store1 and s = "''{oops''" and jid = "''job-2''"
        and w = "Some store1"] by simp
qed

text \<open>
  Claim C10. For a job id with no entry in the loaded map, \<^verbatim>\<open>saveJobStatus\<close> with the
  default status \<open>NotApplied\<close> does write the store: the status map is stored anew with
  an explicit \<open>NotApplied\<close> entry for the job id, so the store differs from the one
  before. The history is left as it was, and \<^verbatim>\<open>getJobStatus\<close> gives the same answer
  before and after.
\<close>

theorem save_default_for_absent_job:
  assumes "loadJobStatuses (Some ls) jid = None"
  shows "saveJobStatus jid NotApplied jtitle cname now (Some ls) =
           Some (ls\<lparr>jobTrackerStatus :=
                      Some (Json ((loadJobStatuses (Some ls))(jid \<mapsto> NotApplied)))\<rparr>) \<and>
         saveJobStatus jid NotApplied jtitle cname now (Some ls) \<noteq> Some ls \<and>
         loadJobStatuses (saveJobStatus jid NotApplied jtitle cname now (Some ls)) jid =
           Some NotApplied \<and>
         loadStatusHistory (saveJobStatus jid NotApplied jtitle cname now (Some ls)) =
           loadStatusHistory (Some ls) \<and>
         getJobStatus (saveJobStatus jid NotApplied jtitle cname now (Some ls)) jid =
           getJobStatus (Some ls) jid"
proof -
  let ?w = "saveJobStatus jid NotApplied jtitle cname now (Some ls)"
  have eq: "?w = Some (ls\<lparr>jobTrackerStatus :=
                      Some (Json ((loadJobStatuses (Some ls))(jid \<mapsto> NotApplied)))\<rparr>)"
    using assms by (simp add: saveJobStatus_def JSON_stringify_def)
  have st: "loadJobStatuses ?w jid = Some NotApplied"
    by (simp add: saveJobStatus_statuses)
  have ne: "?w \<noteq> Some ls"
    using st assms by auto
  have hist: "loadStatusHistory ?w = loadStatusHistory (Some ls)"
    by (simp add: saveJobStatus_history)
  have get: "getJobStatus ?w jid = getJobStatus (Some ls) jid"
    using st assms by (simp add: getJobStatus_def)
  from eq ne st hist get show ?thesis by simp
qed

theorem save_default_for_absent_job_witness:
  "loadJobStatuses (Some store1) ''job-2'' = None \<and>
   loadJobStatuses (saveJobStatus ''job-2'' NotApplied ''Backend Engineer'' ''Acme''
      ''2024-01-01T09:00:00.000Z'' (Some store1)) ''job-2'' = Some NotApplied \<and>
   saveJobStatus ''job-2'' NotApplied ''Backend Engineer'' ''Acme''
      ''2024-01-01T09:00:00.000Z'' (Some store1) \<noteq> Some store1"
proof -
  have h: "loadJobStatuses (Some store1) ''job-2'' = None"
    by (simp add: loadJobStatuses_def store1_def truthy_def JSON_parse_def)
  show ?thesis
    using h save_default_for_absent_job [OF h, of "''Backend Engineer''" "''Acme''"
        "''2024-01-01T09:00:00.000Z''"]
    by blast
qed

section \<open>Properties of sorting and filtering\<close>

lemma mset_insertBy: "mset (insertBy cmp x ys) = add_mset x (mset ys)"
  by (induction ys) auto

lemma mset_sort_cmp: "mset (sort_cmp cmp xs) = mset xs"
  by (induction xs) (auto simp: sort_cmp_def mset_insertBy)

lemma set_sort_cmp: "set (sort_cmp cmp xs) = set xs"
  by (metis mset_sort_cmp set_mset_mset)

lemma length_sort_cmp: "length (sort_cmp cmp xs) = length xs"
  by (metis mset_sort_cmp size_mset)

lemma set_insertBy: "set (insertBy cmp x ys) = insert x (set ys)"
  by (metis mset_insertBy set_mset_mset set_mset_add_mset_insert)

lemma sorted_insertBy:
  assumes total: "\<And>a b. cmp a b \<le> 0 \<or> cmp b a \<le> 0"
    and trans: "\<And>a b c. cmp a b \<le> 0 \<Longrightarrow> cmp b c \<le> 0 \<Longrightarrow> cmp a c \<le> 0"
  shows "sorted_wrt (\<lambda>a b. cmp a b \<le> 0) ys \<Longrightarrow>
         sorted_wrt (\<lambda>a b. cmp a b \<le> 0) (insertBy cmp x ys)"
proof (induction ys)
  case Nil
  then show ?case by simp
next
  case (Cons y ys)
  show ?case
  proof (cases "cmp x y \<le> 0")
    case True
    with Cons.prems show ?thesis
      using trans by auto
  next
    case False
    with total have "cmp y x \<le> 0" by blast
    with False Cons show ?thesis
      by (auto simp: set_insertBy)
  qed
qed

lemma sorted_sort_cmp:
  assumes "\<And>a b. cmp a b \<le> 0 \<or> cmp b a \<le> 0"
    and "\<And>a b c. cmp a b \<le> 0 \<Longrightarrow> cmp b c \<le> 0 \<Longrightarrow> cmp a c \<le> 0"
  shows "sorted_wrt (\<lambda>a b. cmp a b \<le> 0) (sort_cmp cmp xs)"
proof (induction xs)
  case Nil
  then show ?case by (simp add: sort_cmp_def)
next
  case (Cons x xs)
  have "sort_cmp cmp (x # xs) = insertBy cmp x (sort_cmp cmp xs)"
    by (simp add: sort_cmp_def)
  with Cons assms show ?case
    using sorted_insertBy [of cmp "sort_cmp cmp xs" x] by auto
qed

lemma sorted_by_key_asc:
  fixes key :: "'a \<Rightarrow> int"
  shows "sorted (map key (sort_cmp (\<lambda>a b. key a - key b) xs))"
proof -
  have "sorted_wrt (\<lambda>a b. key a - key b \<le> 0) (sort_cmp (\<lambda>a b. key a - key b) xs)"
    by (rule sorted_sort_cmp) auto
  then show ?thesis
    by (simp add: sorted_map)
qed

lemma sorted_by_key_desc:
  fixes key :: "'a \<Rightarrow> int"
  shows "sorted (rev (map key (sort_cmp (\<lambda>a b. key b - key a) xs)))"
proof -
  have "sorted_wrt (\<lambda>a b. key b - key a \<le> 0) (sort_cmp (\<lambda>a b. key b - key a) xs)"
    by (rule sorted_sort_cmp) auto
  then have "sorted_wrt (\<lambda>a b. b \<le> a) (map key (sort_cmp (\<lambda>a b. key b - key a) xs))"
    by (simp add: sorted_wrt_map)
  then show ?thesis
    by (simp add: sorted_wrt_rev)
qed

lemma asc_is_rev_desc:
  fixes key :: "'a \<Rightarrow> int"
  assumes "distinct (map key xs)"
  shows "sort_cmp (\<lambda>a b. key a - key b) xs = rev (sort_cmp (\<lambda>a b. key b - key a) xs)"
proof -
  let ?asc = "sort_cmp (\<lambda>a b. key a - key b) xs"
  let ?desc = "sort_cmp (\<lambda>a b. key b - key a) xs"
  have m: "mset (map key ?asc) = mset (map key (rev ?desc))"
    by (simp add: mset_sort_cmp)
  have "sorted (map key ?asc)" and "sorted (map key (rev ?desc))"
    using sorted_by_key_asc [of key xs] sorted_by_key_desc [of key xs] by (simp_all add: rev_map)
  with m have keys: "map key ?asc = map key (rev ?desc)"
    by (metis properties_for_sort)
  from assms have "inj_on key (set xs)"
    by (simp add: distinct_map)
  then have "inj_on key (set ?asc \<union> set (rev ?desc))"
    by (simp add: set_sort_cmp)
  with keys show ?thesis
    by (simp add: inj_on_map_eq_map)
qed

lemma filter_steps_distinct:
  "distinct (map postedDaysAgo xs) \<Longrightarrow> distinct (map postedDaysAgo (filter P xs))"
  by (simp add: distinct_map_filter)

subsection \<open>The filter statements\<close>

lemma scoreFilter_filter:
  "scoreFilter showOnlyMatches preferences =
     filter (\<lambda>job. showOnlyMatches \<and> preferences \<noteq> None \<longrightarrow>
                     orZero (matchScore job) \<ge> minMatchScoreOf preferences)"
  by (auto simp: scoreFilter_def fun_eq_iff)

lemma keywordFilter_filter:
  "keywordFilter lower filters =
     filter (\<lambda>job. keyword filters \<noteq> [] \<longrightarrow>
         includes' (lower (title job)) (lower (keyword filters)) \<or>
         includes' (lower (company job)) (lower (keyword filters)))"
  by (auto simp: keywordFilter_def fun_eq_iff Let_def)

lemma locationFilter_filter:
  "locationFilter filters =
     filter (\<lambda>job. location' filters \<noteq> [] \<longrightarrow> location job = location' filters)"
  by (auto simp: locationFilter_def fun_eq_iff)

lemma modeFilter_filter:
  "modeFilter filters = filter (\<lambda>job. mode' filters \<noteq> [] \<longrightarrow> mode job = mode' filters)"
  by (auto simp: modeFilter_def fun_eq_iff)

lemma experienceFilter_filter:
  "experienceFilter filters =
     filter (\<lambda>job. experience' filters \<noteq> [] \<longrightarrow> experience job = experience' filters)"
  by (auto simp: experienceFilter_def fun_eq_iff)

lemma sourceFilter_filter:
  "sourceFilter filters =
     filter (\<lambda>job. source' filters \<noteq> [] \<longrightarrow> source job = source' filters)"
  by (auto simp: sourceFilter_def fun_eq_iff)

lemma statusFilter_filter:
  "statusFilter filters jobStatuses =
     filter (\<lambda>job. status filters \<noteq> None \<longrightarrow>
         Some (case jobStatuses (id' job) of None \<Rightarrow> NotApplied | Some s \<Rightarrow> s) =
           status filters)"
  by (auto simp: statusFilter_def fun_eq_iff Let_def)

lemmas step_filters =
  scoreFilter_filter keywordFilter_filter locationFilter_filter modeFilter_filter
  experienceFilter_filter sourceFilter_filter statusFilter_filter

lemma filterSteps_are_filters:
  "g \<in> set (filterSteps lower filters showOnlyMatches preferences jobStatuses) \<Longrightarrow> \<exists>P. g = filter P"
  unfolding filterSteps_def
  by (auto simp only: set_simps insert_iff empty_iff step_filters)

lemma filters_commute: "filter P \<circ> filter Q = filter Q \<circ> filter P"
  by (auto simp: fun_eq_iff conj_commute)

lemma runSteps_filterSteps:
  "runSteps (filterSteps lower filters showOnlyMatches preferences jobStatuses) jws =
     filter (satisfiesAll lower filters showOnlyMatches preferences jobStatuses) jws"
proof -
  have "runSteps (filterSteps lower filters showOnlyMatches preferences jobStatuses) jws =
        statusFilter filters jobStatuses
         (sourceFilter filters
           (experienceFilter filters
             (modeFilter filters
               (locationFilter filters
                 (keywordFilter lower filters
                   (scoreFilter showOnlyMatches preferences jws))))))"
    by (simp add: runSteps_def filterSteps_def)
  also have "\<dots> = filter (satisfiesAll lower filters showOnlyMatches preferences jobStatuses) jws"
    unfolding step_filters filter_filter
    by (rule filter_cong) (auto simp: satisfiesAll_def)
  finally show ?thesis .
qed

lemma runSteps_permuted:
  assumes "mset steps = mset (filterSteps lower filters showOnlyMatches preferences jobStatuses)"
  shows "runSteps steps jws =
         runSteps (filterSteps lower filters showOnlyMatches preferences jobStatuses) jws"
proof -
  let ?fs = "filterSteps lower filters showOnlyMatches preferences jobStatuses"
  have "fold (\<lambda>step r. step r) ?fs = fold (\<lambda>step r. step r) steps"
  proof (rule fold_multiset_equiv)
    fix x y
    assume "x \<in> set ?fs" and "y \<in> set ?fs"
    then obtain P Q where "x = filter P" and "y = filter Q"
      using filterSteps_are_filters by blast
    then show "(\<lambda>r. x r) \<circ> (\<lambda>r. y r) = (\<lambda>r. y r) \<circ> (\<lambda>r. x r)"
      using filters_commute [of P Q] by simp
  next
    show "mset ?fs = mset steps"
      using assms by simp
  qed
  then show ?thesis
    by (simp add: runSteps_def)
qed

lemma filteredJobs_runSteps:
  "filteredJobs lower filters jws showOnlyMatches preferences jobStatuses =
     sortJobs filters (runSteps (filterSteps lower filters showOnlyMatches preferences jobStatuses) jws)"
  by (simp add: filteredJobs_def runSteps_def filterSteps_def)

lemma mset_sortJobs: "mset (sortJobs filters xs) = mset xs"
  by (simp add: sortJobs_def mset_sort_cmp)

lemma set_sortJobs: "set (sortJobs filters xs) = set xs"
  by (metis mset_sortJobs set_mset_mset)

lemma satisfiesAll_sort_update:
  "satisfiesAll lower (filters\<lparr>sort' := k\<rparr>) = satisfiesAll lower filters"
  by (simp add: satisfiesAll_def fun_eq_iff)

lemma filteredJobs_satisfiesAll:
  "filteredJobs lower filters jws showOnlyMatches preferences jobStatuses =
     sortJobs filters (filter (satisfiesAll lower filters showOnlyMatches preferences jobStatuses) jws)"
  by (simp add: filteredJobs_runSteps runSteps_filterSteps)

text \<open>
  One run of the function that \<^verbatim>\<open>useMemo\<close> is given. Run in any order, the seven
  filter statements leave the same list: the jobs of the input, in the order of the input,
  that satisfy every active filter for the status map the run reads; sorting that list
  gives the value of the run.
\<close>

lemma one_run_order_independent:
  "(mset steps = mset (filterSteps lower filters showOnlyMatches preferences jobStatuses) \<longrightarrow>
      runSteps steps jws =
        filter (satisfiesAll lower filters showOnlyMatches preferences jobStatuses) jws \<and>
      sortJobs filters (runSteps steps jws) =
        filteredJobs lower filters jws showOnlyMatches preferences jobStatuses) \<and>
   set (filteredJobs lower filters jws showOnlyMatches preferences jobStatuses) =
     {job \<in> set jws. satisfiesAll lower filters showOnlyMatches preferences jobStatuses job}"
proof (intro conjI impI)
  assume m: "mset steps = mset (filterSteps lower filters showOnlyMatches preferences jobStatuses)"
  have p: "runSteps steps jws =
      runSteps (filterSteps lower filters showOnlyMatches preferences jobStatuses) jws"
    using m by (rule runSteps_permuted)
  then show "runSteps steps jws =
        filter (satisfiesAll lower filters showOnlyMatches preferences jobStatuses) jws"
    by (simp only: runSteps_filterSteps)
  from p show "sortJobs filters (runSteps steps jws) =
        filteredJobs lower filters jws showOnlyMatches preferences jobStatuses"
    by (simp only: filteredJobs_runSteps)
next
  show "set (filteredJobs lower filters jws showOnlyMatches preferences jobStatuses) =
     {job \<in> set jws. satisfiesAll lower filters showOnlyMatches preferences jobStatuses job}"
    by (auto simp: filteredJobs_satisfiesAll set_sortJobs)
qed

text \<open>
  Claim C6. For a list of jobs whose \<^verbatim>\<open>postedDaysAgo\<close> values are pairwise distinct,
  sorting with the key \<^verbatim>\<open>"latest"\<close> gives the reverse of sorting with the key
  \<^verbatim>\<open>"oldest"\<close>, for the sorting step alone and for \<^verbatim>\<open>filteredJobs\<close> as a whole.
\<close>

theorem latest_reverses_oldest:
  assumes "distinct (map postedDaysAgo jws)"
  shows "sortJobs (filters\<lparr>sort' := ''latest''\<rparr>) jws =
           rev (sortJobs (filters\<lparr>sort' := ''oldest''\<rparr>) jws) \<and>
         filteredJobs lower (filters\<lparr>sort' := ''latest''\<rparr>) jws showOnlyMatches preferences jobStatuses =
           rev (filteredJobs lower (filters\<lparr>sort' := ''oldest''\<rparr>) jws showOnlyMatches preferences
                  jobStatuses)"
proof
  have sorts: "\<And>xs. distinct (map postedDaysAgo xs) \<Longrightarrow>
      sortJobs (filters\<lparr>sort' := ''latest''\<rparr>) xs =
        rev (sortJobs (filters\<lparr>sort' := ''oldest''\<rparr>) xs)"
    using asc_is_rev_desc [of postedDaysAgo] by (simp add: sortJobs_def)
  from assms show "sortJobs (filters\<lparr>sort' := ''latest''\<rparr>) jws =
           rev (sortJobs (filters\<lparr>sort' := ''oldest''\<rparr>) jws)"
    by (rule sorts)
  let ?kept = "filter (satisfiesAll lower filters showOnlyMatches preferences jobStatuses) jws"
  from assms have "distinct (map postedDaysAgo ?kept)"
    by (rule filter_steps_distinct)
  then have "sortJobs (filters\<lparr>sort' := ''latest''\<rparr>) ?kept =
           rev (sortJobs (filters\<lparr>sort' := ''oldest''\<rparr>) ?kept)"
    by (rule sorts)
  then show "filteredJobs lower (filters\<lparr>sort' := ''latest''\<rparr>) jws showOnlyMatches preferences
          jobStatuses =
        rev (filteredJobs lower (filters\<lparr>sort' := ''oldest''\<rparr>) jws showOnlyMatches preferences
              jobStatuses)"
    by (simp add: filteredJobs_satisfiesAll satisfiesAll_sort_update)
qed

theorem latest_reverses_oldest_witness:
  "distinct (map postedDaysAgo scoredJobs0) \<and>
   sortJobs (filters0\<lparr>sort' := ''latest''\<rparr>) scoredJobs0 =
     rev (sortJobs (filters0\<lparr>sort' := ''oldest''\<rparr>) scoredJobs0) \<and>
   sortJobs (filters0\<lparr>sort' := ''latest''\<rparr>) scoredJobs0 =
     [withScore jobA (Some 80), withScore jobB (Some 30)]"
proof -
  have d: "distinct (map postedDaysAgo scoredJobs0)"
    by (simp add: scoredJobs0_def withScore_def jobA_def jobB_def)
  have l: "sortJobs (filters0\<lparr>sort' := ''latest''\<rparr>) scoredJobs0 =
     [withScore jobA (Some 80), withScore jobB (Some 30)]"
    by (simp add: sortJobs_def sort_cmp_def scoredJobs0_def withScore_def jobA_def jobB_def)
  show ?thesis
    using d l
      latest_reverses_oldest [where jws = scoredJobs0 and filters = filters0
        and lower = toLowerCase and showOnlyMatches = False and preferences = None
        and jobStatuses = Map.empty]
    by blast
qed

subsection \<open>Decimal numerals and the first number of a text\<close>

















section \<open>The list that the page holds\<close>

lemma useMemo_same_deps:
  "useMemo (Some (deps, v)) calculated deps = (v, Some (deps, v))"
  by (simp add: useMemo_def)

lemma render_keeps:
  "filteredJobsKept (snd (renderFilteredJobs lower scorer allJobs page)) =
     Some ((filtersState page, jobsWithScores scorer allJobs (preferencesState page),
            showOnlyMatchesState page, minMatchScoreOf (preferencesState page),
            preferencesState page),
           fst (renderFilteredJobs lower scorer allJobs page))"
  by (auto simp: renderFilteredJobs_def useMemo_def Let_def split: option.splits)

lemma render_state:
  "filtersState (snd (renderFilteredJobs lower scorer allJobs page)) = filtersState page"
  "showOnlyMatchesState (snd (renderFilteredJobs lower scorer allJobs page)) =
     showOnlyMatchesState page"
  "preferencesState (snd (renderFilteredJobs lower scorer allJobs page)) = preferencesState page"
  "jobStatusesState (snd (renderFilteredJobs lower scorer allJobs page)) = jobStatusesState page"
  by (simp_all add: renderFilteredJobs_def Let_def)

lemma handleStatusChange_page:
  "filtersState (snd (handleStatusChange allJobs jid newStatus now (w, page))) =
     filtersState page"
  "showOnlyMatchesState (snd (handleStatusChange allJobs jid newStatus now (w, page))) =
     showOnlyMatchesState page"
  "preferencesState (snd (handleStatusChange allJobs jid newStatus now (w, page))) =
     preferencesState page"
  "filteredJobsKept (snd (handleStatusChange allJobs jid newStatus now (w, page))) =
     filteredJobsKept page"
  by (simp_all add: handleStatusChange_def Let_def split: option.splits)

text \<open>After a status change the page shows the list it showed before, whatever the new
  status map is: no dependency of the memoised list has changed.\<close>

lemma render_after_status_change:
  "fst (renderFilteredJobs lower scorer allJobs
          (snd (handleStatusChange allJobs jid newStatus now
                  (w, snd (renderFilteredJobs lower scorer allJobs page))))) =
     fst (renderFilteredJobs lower scorer allJobs page)"
proof -
  let ?shown = "fst (renderFilteredJobs lower scorer allJobs page)"
  let ?page1 = "snd (renderFilteredJobs lower scorer allJobs page)"
  let ?page2 = "snd (handleStatusChange allJobs jid newStatus now (w, ?page1))"
  let ?deps = "(filtersState page, jobsWithScores scorer allJobs (preferencesState page),
            showOnlyMatchesState page, minMatchScoreOf (preferencesState page),
            preferencesState page)"
  have kept: "filteredJobsKept ?page2 = Some (?deps, ?shown)"
    by (simp only: handleStatusChange_page render_keeps)
  have st: "filtersState ?page2 = filtersState page"
    "showOnlyMatchesState ?page2 = showOnlyMatchesState page"
    "preferencesState ?page2 = preferencesState page"
    by (simp_all only: handleStatusChange_page render_state)
  show ?thesis
    by (simp add: renderFilteredJobs_def [of lower scorer allJobs ?page2] Let_def kept st
        useMemo_same_deps)
qed

lemma store1_statuses: "loadJobStatuses (Some store1) = [''job-1'' \<mapsto> Applied]"
  by (simp add: loadJobStatuses_def store1_def truthy_def JSON_parse_def)

lemma shown_before_change:
  "fst (renderFilteredJobs toLowerCase scorer0 [jobA, jobB] pageApplied) = [withScore jobA None]"
  by (simp add: renderFilteredJobs_def useMemo_def pageApplied_def filtersApplied_def
      store1_statuses jobsWithScores_def filteredJobs_def scoreFilter_def keywordFilter_def
      locationFilter_def modeFilter_def experienceFilter_def sourceFilter_def statusFilter_def
      sortJobs_def sort_cmp_def withScore_def jobA_def jobB_def Let_def)

lemma statuses_after_change:
  "jobStatusesState (snd afterChange) = [''job-1'' \<mapsto> Rejected]"
  by (simp add: afterChange_def handleStatusChange_def jobA_def saveJobStatus_statuses
      store1_statuses Let_def)

text \<open>
  Claim C5. The list that the dashboard shows does not always satisfy the active status
  filter. With the status filter on \<open>Applied\<close> and the first job \<open>Applied\<close>, the page
  shows that job. A change of its status to \<open>Rejected\<close> stores the new status and sets
  the page's status map, and the next render still shows the job: the memoised list is not
  calculated anew, since the status map is not among its dependencies. A run of the
  function on the state of that render gives the empty list.
\<close>

theorem status_filter_stale_after_change:
  "fst (renderFilteredJobs toLowerCase scorer0 [jobA, jobB] pageApplied) =
     [withScore jobA None] \<and>
   getJobStatus (fst afterChange) ''job-1'' = Rejected \<and>
   jobStatusesState (snd afterChange) ''job-1'' = Some Rejected \<and>
   status (filtersState (snd afterChange)) = Some Applied \<and>
   fst (renderFilteredJobs toLowerCase scorer0 [jobA, jobB] (snd afterChange)) =
     [withScore jobA None] \<and>
   filteredJobs toLowerCase (filtersState (snd afterChange))
     (jobsWithScores scorer0 [jobA, jobB] (preferencesState (snd afterChange)))
     (showOnlyMatchesState (snd afterChange)) (preferencesState (snd afterChange))
     (jobStatusesState (snd afterChange)) = []"
proof -
  let ?page1 = "snd (renderFilteredJobs toLowerCase scorer0 [jobA, jobB] pageApplied)"
  have before: "fst (renderFilteredJobs toLowerCase scorer0 [jobA, jobB] pageApplied) =
      [withScore jobA None]"
    by (rule shown_before_change)
  have stored: "getJobStatus (fst afterChange) ''job-1'' = Rejected"
    by (simp add: afterChange_def handleStatusChange_def jobA_def getJobStatus_def
        saveJobStatus_statuses Let_def)
  have map: "jobStatusesState (snd afterChange) ''job-1'' = Some Rejected"
    by (simp add: statuses_after_change)
  have st: "filtersState (snd afterChange) = filtersApplied"
    "showOnlyMatchesState (snd afterChange) = False"
    "preferencesState (snd afterChange) = None"
    by (simp_all add: afterChange_def handleStatusChange_page render_state pageApplied_def)
  have flt: "status (filtersState (snd afterChange)) = Some Applied"
    by (simp add: st filtersApplied_def)
  have after: "fst (renderFilteredJobs toLowerCase scorer0 [jobA, jobB] (snd afterChange)) =
      [withScore jobA None]"
    unfolding afterChange_def by (simp only: render_after_status_change before)
  have fresh: "filteredJobs toLowerCase (filtersState (snd afterChange))
     (jobsWithScores scorer0 [jobA, jobB] (preferencesState (snd afterChange)))
     (showOnlyMatchesState (snd afterChange)) (preferencesState (snd afterChange))
     (jobStatusesState (snd afterChange)) = []"
    by (simp add: st statuses_after_change filtersApplied_def jobsWithScores_def
        filteredJobs_def scoreFilter_def keywordFilter_def locationFilter_def modeFilter_def
        experienceFilter_def sourceFilter_def statusFilter_def sortJobs_def sort_cmp_def
        withScore_def jobA_def jobB_def Let_def)
  from before stored map flt after fresh show ?thesis
    by blast
qed

section \<open>Properties of the digest\<close>

lemma digestCompare_order: "(digestCompare a b \<le> 0) = digestOrder a b"
  by (auto simp: digestCompare_def digestOrder_def)

lemma sorted_digest: "sorted_wrt digestOrder (sort_cmp digestCompare xs)"
proof -
  have "sorted_wrt (\<lambda>a b. digestCompare a b \<le> 0) (sort_cmp digestCompare xs)"
  proof (rule sorted_sort_cmp)
    fix a b :: "int ScoredJob"
    show "digestCompare a b \<le> 0 \<or> digestCompare b a \<le> 0"
      by (auto simp: digestCompare_def)
  next
    fix a b c :: "int ScoredJob"
    assume "digestCompare a b \<le> 0" and "digestCompare b c \<le> 0"
    then show "digestCompare a c \<le> 0"
      by (auto simp: digestCompare_def split: if_splits)
  qed
  then show ?thesis
    by (simp add: digestCompare_order)
qed

lemma jobs_generateDigest:
  "jobs (generateDigest scorer allJobs preferences today) =
     take 10 (sort_cmp digestCompare
       (map (\<lambda>job. withScore job
               (case preferences of Some p \<Rightarrow> scorer job p | None \<Rightarrow> 0))
          allJobs))"
  by (simp add: generateDigest_def)

lemma digestItems_handleGenerateDigest:
  "digestItems (fst (handleGenerateDigest scorer allJobs preferences today keyDay ls)) =
     (digestItems ls)(getTodayKey keyDay \<mapsto>
        JSON_stringify (generateDigest scorer allJobs preferences today))"
  by (simp add: handleGenerateDigest_def Let_def)

lemma getTodayKey_same_day:
  "getFullYear dayB = getFullYear dayA \<and> getMonth dayB = getMonth dayA \<and> getDate dayB = getDate dayA \<Longrightarrow>
   getTodayKey dayB = getTodayKey dayA"
  by (simp add: getTodayKey_def)

text \<open>
  Claim C4. The digest has at most 10 jobs: the first 10 of the scored jobs, rearranged so
  that a higher score comes first and, among equal scores, the job posted fewer days ago.
  Without preferences every job of the digest has the score 0. A second generation whose
  key is taken on the same calendar day stores its digest under the key of the first, in
  place of the first digest, and the store has the same keys as after the first.
\<close>

theorem digest_top_ten:
  "length (jobs (generateDigest scorer allJobs preferences today)) \<le> 10 \<and>
   jobs (generateDigest scorer allJobs preferences today) =
     take 10 (sort_cmp digestCompare
       (map (\<lambda>job. withScore job
               (case preferences of Some p \<Rightarrow> scorer job p | None \<Rightarrow> 0))
          allJobs)) \<and>
   mset (sort_cmp digestCompare
       (map (\<lambda>job. withScore job
               (case preferences of Some p \<Rightarrow> scorer job p | None \<Rightarrow> 0))
          allJobs)) =
     mset (map (\<lambda>job. withScore job
               (case preferences of Some p \<Rightarrow> scorer job p | None \<Rightarrow> 0))
          allJobs) \<and>
   sorted_wrt digestOrder (sort_cmp digestCompare
       (map (\<lambda>job. withScore job
               (case preferences of Some p \<Rightarrow> scorer job p | None \<Rightarrow> 0))
          allJobs)) \<and>
   sorted_wrt digestOrder (jobs (generateDigest scorer allJobs preferences today)) \<and>
   (\<forall>job \<in> set (jobs (generateDigest scorer allJobs None today)).
      matchScore job = 0) \<and>
   (getFullYear dayB = getFullYear dayA \<and> getMonth dayB = getMonth dayA \<and> getDate dayB = getDate dayA \<longrightarrow>
      digestItems (fst (handleGenerateDigest scorer allJobs preferencesB todayB dayB
          (fst (handleGenerateDigest scorer allJobs preferences today dayA ls)))) =
        (digestItems ls)(getTodayKey dayA \<mapsto>
           JSON_stringify (generateDigest scorer allJobs preferencesB todayB)) \<and>
      dom (digestItems (fst (handleGenerateDigest scorer allJobs preferencesB todayB dayB
          (fst (handleGenerateDigest scorer allJobs preferences today dayA ls))))) =
        dom (digestItems (fst (handleGenerateDigest scorer allJobs preferences today
          dayA ls))))"
proof (intro conjI impI)
  show "length (jobs (generateDigest scorer allJobs preferences today)) \<le> 10"
    by (simp add: jobs_generateDigest)
  show "jobs (generateDigest scorer allJobs preferences today) =
     take 10 (sort_cmp digestCompare
       (map (\<lambda>job. withScore job
               (case preferences of Some p \<Rightarrow> scorer job p | None \<Rightarrow> 0))
          allJobs))"
    by (rule jobs_generateDigest)
  show "mset (sort_cmp digestCompare
       (map (\<lambda>job. withScore job
               (case preferences of Some p \<Rightarrow> scorer job p | None \<Rightarrow> 0))
          allJobs)) =
     mset (map (\<lambda>job. withScore job
               (case preferences of Some p \<Rightarrow> scorer job p | None \<Rightarrow> 0))
          allJobs)"
    by (rule mset_sort_cmp)
  show "sorted_wrt digestOrder (sort_cmp digestCompare
       (map (\<lambda>job. withScore job
               (case preferences of Some p \<Rightarrow> scorer job p | None \<Rightarrow> 0))
          allJobs))"
    by (rule sorted_digest)
  show "sorted_wrt digestOrder (jobs (generateDigest scorer allJobs preferences today))"
    unfolding jobs_generateDigest by (intro sorted_wrt_take sorted_digest)
  show "\<forall>job \<in> set (jobs (generateDigest scorer allJobs None today)).
      matchScore job = 0"
  proof
    fix job
    assume "job \<in> set (jobs (generateDigest scorer allJobs None today))"
    then have "job \<in> set (sort_cmp digestCompare (map (\<lambda>job. withScore job 0) allJobs))"
      by (auto simp: jobs_generateDigest dest: in_set_takeD)
    then have "job \<in> set (map (\<lambda>job. withScore job 0) allJobs)"
      by (simp only: set_sort_cmp)
    then show "matchScore job = 0"
      by (auto simp: withScore_def)
  qed
next
  assume same: "getFullYear dayB = getFullYear dayA \<and> getMonth dayB = getMonth dayA \<and>
      getDate dayB = getDate dayA"
  then have key: "getTodayKey dayB = getTodayKey dayA"
    by (rule getTodayKey_same_day)
  then show "digestItems (fst (handleGenerateDigest scorer allJobs preferencesB todayB dayB
          (fst (handleGenerateDigest scorer allJobs preferences today dayA ls)))) =
        (digestItems ls)(getTodayKey dayA \<mapsto>
           JSON_stringify (generateDigest scorer allJobs preferencesB todayB))"
    by (simp add: digestItems_handleGenerateDigest)
  from key show "dom (digestItems (fst (handleGenerateDigest scorer allJobs preferencesB
          todayB dayB
          (fst (handleGenerateDigest scorer allJobs preferences today dayA ls))))) =
        dom (digestItems (fst (handleGenerateDigest scorer allJobs preferences today
          dayA ls)))"
    by (simp add: digestItems_handleGenerateDigest)
qed

lemma digest_example:
  "jobs (generateDigest scorer0 [jobB, jobA] None morning) =
     [withScore jobA 0, withScore jobB 0]"
  by (simp add: generateDigest_def sort_cmp_def digestCompare_def withScore_def jobA_def
      jobB_def)

theorem digest_top_ten_witness:
  "jobs (generateDigest scorer0 [jobB, jobA] None morning) =
     [withScore jobA 0, withScore jobB 0] \<and>
   map matchScore (jobs (generateDigest scorer0 [jobB, jobA] None morning)) = [0, 0] \<and>
   length (jobs (generateDigest scorer0 [jobB, jobA] None morning)) \<le> 10 \<and>
   getFullYear evening = getFullYear morning \<and> getMonth evening = getMonth morning \<and>
   getDate evening = getDate morning \<and>
   digestItems (fst (handleGenerateDigest scorer0 [jobB, jobA] (Some preferences0) evening evening
       (fst (handleGenerateDigest scorer0 [jobB, jobA] None morning morning store0)))) =
     (digestItems store0)(getTodayKey morning \<mapsto>
        JSON_stringify (generateDigest scorer0 [jobB, jobA] (Some preferences0) evening))"
proof -
  have same: "getFullYear evening = getFullYear morning \<and> getMonth evening = getMonth morning \<and>
      getDate evening = getDate morning"
    by (simp add: evening_def morning_def)
  have zero: "map matchScore (jobs (generateDigest scorer0 [jobB, jobA] None morning)) = [0, 0]"
    by (simp add: digest_example) (simp add: withScore_def)
  show ?thesis
    using same digest_example zero
      digest_top_ten [where scorer = scorer0 and allJobs = "[jobB, jobA]"
        and preferences = None and today = morning and dayA = morning and dayB = evening
        and preferencesB = "Some preferences0" and todayB = evening and ls = store0]
    by blast
qed

section \<open>Properties of the match scorer\<close>

text \<open>
  Claim C1. For every weighting, job and preferences the score of the modelled scorer is an
  integer from 0 to 100, and it is a function of the job and the preferences: the same
  inputs give the same score.
\<close>

theorem score_in_range:
  "0 \<le> calculateMatchScore weighting job p \<and> calculateMatchScore weighting job p \<le> 100 \<and>
   (job' = job \<and> p' = p \<longrightarrow>
      calculateMatchScore weighting job' p' = calculateMatchScore weighting job p)"
  by (simp add: calculateMatchScore_def)

theorem score_in_range_witness:
  "calculateMatchScore weighting0 jobA preferences0 = 55 \<and>
   0 \<le> calculateMatchScore weighting0 jobA preferences0 \<and>
   calculateMatchScore weighting0 jobA preferences0 \<le> 100"
proof -
  have v: "calculateMatchScore weighting0 jobA preferences0 = 55"
    by (simp add: calculateMatchScore_def weighting0_def matchedKeywords_def matchedSkills_def
        locationMatch_def jobA_def preferences0_def toLowerCase_def)
  show ?thesis
    using v score_in_range [of weighting0 jobA preferences0 jobA preferences0] by simp
qed

end
